theory Spec2Isabelle
  imports Complex_Main "HOL-Library.Word"
begin

section \<open>gpxlib: validation of a latitude (Latitude.cpp)\<close>

text \<open>
  A C++ \<open>double\<close> as the comparisons of \<open>Latitude::validate\<close> see it: a finite value
  (every finite double is a real number), one of the two infinities, or a NaN. The
  constants \<open>-90.0\<close> and \<open>90.0\<close> are exactly representable.
\<close>

datatype double = Finite real | PosInf | NegInf | NaN

text \<open>The operator \<open><\<close> on doubles: every comparison with a NaN is false.\<close>

fun double_less :: "double \<Rightarrow> double \<Rightarrow> bool" where
  "double_less NaN b = False"
| "double_less a NaN = False"
| "double_less (Finite a) (Finite b) = (a < b)"
| "double_less (Finite a) PosInf = True"
| "double_less (Finite a) NegInf = False"
| "double_less NegInf NegInf = False"
| "double_less NegInf b = True"
| "double_less PosInf b = False"

text \<open>The operator \<open><=\<close> on doubles.\<close>

fun double_le :: "double \<Rightarrow> double \<Rightarrow> bool" where
  "double_le NaN b = False"
| "double_le a NaN = False"
| "double_le a b = (\<not> double_less b a)"

text \<open>
  \<open>Report::Warning\<close>. Report.h is not part of the sources at hand; \<open>INCORRECT_VALUE\<close> is
  the one enumerator \<open>Latitude::validate\<close> uses, \<open>OTHER_WARNING\<close> stands for the others.
\<close>

datatype warning = INCORRECT_VALUE | OTHER_WARNING nat

text \<open>
  A \<open>Report\<close> is the sequence of the calls \<open>report(node, warning, extra)\<close> it has received,
  the node given by its identity. A \<open>Report *\<close> is \<open>None\<close> for \<open>nullptr\<close>.
\<close>

type_synonym report = "(nat \<times> warning \<times> string) list"

text \<open>
  The \<open>Latitude\<close> object as \<open>validate\<close> sees it. Its base class \<open>Decimal\<close> is not part of
  the sources at hand, so what the inherited members do on this object is a field each:
  \<open>Decimal_validate\<close> takes the report pointer and gives the result of
  \<open>Decimal::validate(report)\<close> with the report as the call leaves it; \<open>convert\<close> is
  \<open>None\<close> when \<open>convert(value)\<close> returns false and \<open>Some v\<close> when it returns true and has
  stored \<open>v\<close>.
\<close>

record Latitude =
  node :: nat
  getValue :: string
  convert :: "double option"
  Decimal_validate :: "report option \<Rightarrow> bool \<times> report option"

text \<open>\<open>if (report != nullptr) report->report(this, warning, extra);\<close>\<close>

definition report_if_set :: "report option \<Rightarrow> nat \<Rightarrow> warning \<Rightarrow> string \<Rightarrow> report option" where
  "report_if_set report n w extra =
     (case report of None \<Rightarrow> None | Some calls \<Rightarrow> Some (calls @ [(n, w, extra)]))"

definition Latitude_validate :: "Latitude \<Rightarrow> report option \<Rightarrow> bool \<times> report option" where
  "Latitude_validate lat report =
     (case Decimal_validate lat report of
        (ok, report1) \<Rightarrow>
          if ok then
            (case convert lat of
               Some val \<Rightarrow>
                 if double_less val (Finite (- 90)) \<or> double_less (Finite 90) val
                 then (False, report_if_set report1 (node lat) INCORRECT_VALUE (getValue lat))
                 else (ok, report1)
             | None \<Rightarrow> (ok, report1))
          else (ok, report1))"

section \<open>The time widget (widgets/time.h)\<close>

text \<open>
  A C++ \<open>int\<close>: 32 bits in two's complement, read as a signed number by \<open>sint\<close>. Its
  addition wraps around: \<open>2147483647 + 1\<close> is \<open>-2147483648\<close>.
\<close>

type_synonym c_int = "32 word"

text \<open>
  The members of \<open>VideoWidget\<close> that \<open>TimeWidget::render\<close> reads. videowidget.h is not part
  of the sources at hand; each accessor is a field.
\<close>

record VideoWidget =
  widget_x :: c_int
  widget_y :: c_int
  widget_width :: c_int
  widget_height :: c_int
  widget_padding :: c_int
  widget_border :: c_int
  widget_label :: string

text \<open>The fields of \<open>struct tm\<close> that the format \<open>%H:%M:%S\<close> reads.\<close>

record tm =
  tm_hour :: nat
  tm_min :: nat
  tm_sec :: nat

definition two_digits :: "nat \<Rightarrow> string" where
  "two_digits n = [char_of (48 + n div 10 mod 10), char_of (48 + n mod 10)]"

text \<open>\<open>strftime(s, sizeof(s), "%H:%M:%S", &time)\<close>: eight characters, well below 128.\<close>

definition strftime_HMS :: "tm \<Rightarrow> string" where
  "strftime_HMS t = two_digits (tm_hour t) @ '':'' @ two_digits (tm_min t) @ '':'' @ two_digits (tm_sec t)"

text \<open>The two drawing calls \<open>render\<close> makes on the destination buffer.\<close>

datatype draw_call = DrawLabel c_int c_int string | DrawValue c_int c_int string

text \<open>
  What \<open>render\<close> works with besides its arguments: the widget's own members, the
  application's camera clock \<open>app_.time()\<close>, the C library's \<open>localtime_r\<close> (which
  depends on the time zone of the process) and the two drawing primitives of
  \<open>VideoWidget\<close>, which turn a frame buffer into a frame buffer.
\<close>

record 'buf TimeWidget =
  widget :: VideoWidget
  app_time :: int
  localtime_r :: "int \<Rightarrow> tm"
  drawLabel :: "'buf \<Rightarrow> c_int \<Rightarrow> c_int \<Rightarrow> string \<Rightarrow> 'buf"
  drawValue :: "'buf \<Rightarrow> c_int \<Rightarrow> c_int \<Rightarrow> string \<Rightarrow> 'buf"

text \<open>
  \<open>TimeWidget::render(buf, data)\<close>: the drawing calls made, in order, and the frame
  buffer they leave. \<open>data\<close> is the telemetry sample (\<open>GPXData\<close>). The horizontal
  position \<open>x() + height() + padding()\<close> is a sum of C++ ints.
\<close>

definition render :: "'buf TimeWidget \<Rightarrow> 'buf \<Rightarrow> 'data \<Rightarrow> draw_call list \<times> 'buf" where
  "render w buf data =
     (let time = localtime_r w (app_time w);
          s = strftime_HMS time;
          vw = widget w;
          px = widget_x vw + widget_height vw + widget_padding vw;
          buf1 = drawLabel w buf px (widget_y vw) (widget_label vw);
          buf2 = drawValue w buf1 px (widget_y vw) s
      in ([DrawLabel px (widget_y vw) (widget_label vw), DrawValue px (widget_y vw) s], buf2))"

section \<open>The command line (main.cpp)\<close>

text \<open>
  \<open>GPX2Video::Command\<close>. gpx2video.h is not part of the sources at hand: the six
  enumerators that main.cpp names are constructors, and \<open>CommandOther\<close> stands for any
  further enumerator, which \<open>main\<close> sends to the \<open>default\<close> branch of its switch.
\<close>

datatype Command =
  CommandSource | CommandSync | CommandClear | CommandMap | CommandTrack | CommandVideo
  | CommandOther nat

text \<open>\<open>GPX2Video::Settings\<close>, with the seven constructor arguments in their order.\<close>

record Settings =
  settings_gpxfile :: string
  settings_mediafile :: string
  settings_outputfile :: string
  settings_map_factor :: double
  settings_map_zoom :: int
  settings_max_duration_ms :: int
  settings_map_source :: int

text \<open>The two members of the application object that \<open>parseCommandLine\<close> writes.\<close>

record GPX2Video =
  command :: Command
  settings :: Settings

definition setCommand :: "Command \<Rightarrow> GPX2Video \<Rightarrow> GPX2Video" where
  "setCommand c app = app\<lparr>command := c\<rparr>"

definition setSettings :: "Settings \<Rightarrow> GPX2Video \<Rightarrow> GPX2Video" where
  "setSettings s app = app\<lparr>settings := s\<rparr>"

text \<open>The table \<open>gpx2video::options\<close>: name, whether an argument is required, value.\<close>

definition options :: "(string \<times> bool \<times> char) list" where
  "options =
     [(''help'', False, CHR ''h''), (''verbose'', False, CHR ''v''), (''quiet'', False, CHR ''q''),
      (''duration'', True, CHR ''d''), (''media'', True, CHR ''m''), (''gpx'', True, CHR ''g''),
      (''output'', True, CHR ''o''), (''map-source'', True, CHR ''s''),
      (''map-zoom'', True, CHR ''z''), (''map-list'', False, CHR ''l'')]"

text \<open>
  One return of \<open>getopt_long\<close> other than \<open>-1\<close>: the value returned (\<open>option\<close> in the
  source), \<open>optarg\<close> (\<open>None\<close> for a null pointer) and the index it stores for a long
  option.
\<close>

record getopt_result =
  opt :: char
  optarg :: "string option"
  longindex :: nat

text \<open>
  The command line as \<open>parseCommandLine\<close> reads it: \<open>argv[0]\<close>, the successive returns
  of \<open>getopt_long\<close> up to its \<open>-1\<close>, and the arguments left from \<open>optind\<close> on.
\<close>

record cmdline =
  argv0 :: string
  getopt_returns :: "getopt_result list"
  remaining :: "string list"

text \<open>The C library's \<open>atoi\<close> and \<open>strtod(s, NULL)\<close>, as parameters.\<close>

record libc =
  atoi :: "string \<Rightarrow> int"
  strtod :: "string \<Rightarrow> double"

text \<open>The local variables of \<open>parseCommandLine\<close> that the option loop writes.\<close>

record locals =
  verbose :: int
  map_zoom :: int
  max_duration_ms :: int
  map_factor :: double
  map_source :: int
  gpxfile :: "string option"
  mediafile :: "string option"
  outputfile :: "string option"

text \<open>
  One pass through the \<open>switch\<close>: the loop goes on with new locals and output, or the
  function returns. The outer \<open>None\<close> is undefined behaviour: a null \<open>optarg\<close> handed to
  \<open>strtod\<close>, \<open>atoi\<close> or \<open>strdup\<close>, or an index beyond the option table.
\<close>

datatype switch_result = Continue locals "string list" | Return int GPX2Video "string list"

definition option_switch ::
  "libc \<Rightarrow> getopt_result \<Rightarrow> locals \<Rightarrow> GPX2Video \<Rightarrow> string list \<Rightarrow> switch_result option" where
  "option_switch c g l app out =
     (if opt g = CHR 0x00 then
        (if longindex g < length options
         then Some (Continue l
                (out @ [''option '' @ fst (options ! longindex g)
                          @ (case optarg g of Some a \<Rightarrow> '' with arg '' @ a | None \<Rightarrow> [])]))
         else None)
      else if opt g = CHR ''h'' then Some (Return (- 1) app out)
      else if opt g = CHR ''l'' then Some (Return 0 (setCommand CommandSource app) out)
      else if opt g = CHR ''f'' then
        (case optarg g of None \<Rightarrow> None
         | Some a \<Rightarrow> Some (Continue (l\<lparr>map_factor := strtod c a\<rparr>) out))
      else if opt g = CHR ''z'' then
        (case optarg g of None \<Rightarrow> None
         | Some a \<Rightarrow> Some (Continue (l\<lparr>map_zoom := atoi c a\<rparr>) out))
      else if opt g = CHR ''s'' then
        (case optarg g of None \<Rightarrow> None
         | Some a \<Rightarrow> Some (Continue (l\<lparr>map_source := atoi c a\<rparr>) out))
      else if opt g = CHR ''q'' then Some (Continue l out)
      else if opt g = CHR ''v'' then Some (Continue (l\<lparr>verbose := verbose l + 1\<rparr>) out)
      else if opt g = CHR ''d'' then
        (case optarg g of None \<Rightarrow> None
         | Some a \<Rightarrow> Some (Continue (l\<lparr>max_duration_ms := atoi c a\<rparr>) out))
      else if opt g = CHR ''m'' then
        (if mediafile l \<noteq> None
         then Some (Return (- 1) app (out @ [CHR 0x27 # ''media' option is already set!'']))
         else (case optarg g of None \<Rightarrow> None
               | Some a \<Rightarrow> Some (Continue (l\<lparr>mediafile := Some a\<rparr>) out)))
      else if opt g = CHR ''g'' then
        (if gpxfile l \<noteq> None
         then Some (Return (- 1) app (out @ [CHR 0x27 # ''gpx' option is already set!'']))
         else (case optarg g of None \<Rightarrow> None
               | Some a \<Rightarrow> Some (Continue (l\<lparr>gpxfile := Some a\<rparr>) out)))
      else if opt g = CHR ''o'' then
        (if outputfile l \<noteq> None
         then Some (Return (- 1) app (out @ [CHR 0x27 # ''output' option is already set!'']))
         else (case optarg g of None \<Rightarrow> None
               | Some a \<Rightarrow> Some (Continue (l\<lparr>outputfile := Some a\<rparr>) out)))
      else Some (Return (- 1) app out))"

text \<open>
  The loop \<open>for (;;)\<close> over the returns of \<open>getopt_long\<close>: it ends with \<open>Continue\<close> when
  \<open>getopt_long\<close> returns \<open>-1\<close> (the \<open>break\<close>), and with \<open>Return\<close> when a case returns.
\<close>

fun option_loop ::
  "libc \<Rightarrow> getopt_result list \<Rightarrow> locals \<Rightarrow> GPX2Video \<Rightarrow> string list \<Rightarrow> switch_result option" where
  "option_loop c [] l app out = Some (Continue l out)"
| "option_loop c (g # gs) l app out =
     (case option_switch c g l app out of
        None \<Rightarrow> None
      | Some (Continue l' out') \<Rightarrow> option_loop c gs l' app out'
      | Some (Return r app' out') \<Rightarrow> Some (Return r app' out'))"

text \<open>The locals as initialised; \<open>osm\<close> is \<open>MapSettings::SourceOpenStreetMap\<close>.\<close>

definition initial_locals :: "int \<Rightarrow> locals" where
  "initial_locals osm =
     \<lparr>verbose = 0, map_zoom = 12, max_duration_ms = 0, map_factor = Finite 1,
      map_source = osm, gpxfile = None, mediafile = None, outputfile = None\<rparr>"

text \<open>The chain of \<open>strcmp\<close> on the one remaining argument.\<close>

definition command_of_word :: "string \<Rightarrow> Command option" where
  "command_of_word w =
     (if w = ''sync'' then Some CommandSync
      else if w = ''clear'' then Some CommandClear
      else if w = ''map'' then Some CommandMap
      else if w = ''track'' then Some CommandTrack
      else if w = ''video'' then Some CommandVideo
      else None)"

text \<open>
  What follows the loop, from \<open>// Check required options\<close> on: the value returned, the
  application object and the lines written to \<open>std::cout\<close>.
\<close>

definition after_options ::
  "string \<Rightarrow> string list \<Rightarrow> locals \<Rightarrow> GPX2Video \<Rightarrow> string list \<Rightarrow> int \<times> GPX2Video \<times> string list" where
  "after_options name args l app out =
     (case mediafile l of
        None \<Rightarrow> (- 1, app, out @ [name @ '': option '--media' is required''])
      | Some media \<Rightarrow>
     (case gpxfile l of
        None \<Rightarrow> (- 1, app, out @ [name @ '': option '--gpx' is required''])
      | Some gpx \<Rightarrow>
     (case outputfile l of
        None \<Rightarrow> (- 1, app, out @ [name @ '': option '--output' is required''])
      | Some output \<Rightarrow>
          (let saved = Settings.make gpx media output (map_factor l) (map_zoom l)
                         (max_duration_ms l) (map_source l)
           in if length args = 1 then
                (case command_of_word (hd args) of
                   Some cmd \<Rightarrow> (0, setSettings saved (setCommand cmd app), out)
                 | None \<Rightarrow>
                     (- 1, app,
                      out @ [name @ '': command '' @ [CHR 0x27] @ hd args @ [CHR 0x27] @ '' unknown'']))
              else (0, setSettings saved (setCommand CommandVideo app), out)))))"

text \<open>\<open>GPX2Video::parseCommandLine\<close>; \<open>None\<close> is undefined behaviour in the loop.\<close>

definition parseCommandLine ::
  "libc \<Rightarrow> int \<Rightarrow> cmdline \<Rightarrow> GPX2Video \<Rightarrow> (int \<times> GPX2Video \<times> string list) option" where
  "parseCommandLine c osm cl app =
     (case option_loop c (getopt_returns cl) (initial_locals osm) app [] of
        None \<Rightarrow> None
      | Some (Return r app' out) \<Rightarrow> Some (r, app', out)
      | Some (Continue l out) \<Rightarrow> Some (after_options (argv0 cl) (remaining cl) l app out))"

section \<open>The program (main.cpp)\<close>

text \<open>The lines \<open>print_usage\<close> writes to \<open>std::cout\<close>.\<close>

definition print_usage :: "string \<Rightarrow> string list" where
  "print_usage name =
     [''Usage: '' @ name @ ''%s [-v] -m=media -g=gpx -o=output command'',
      ''       '' @ name @ '' -h'',
      [],
      ''Options:'',
      CHR 0x09 # ''- m, --media=file       : Input media file name'',
      CHR 0x09 # ''- g, --gpx=file         : GPX file name'',
      CHR 0x09 # ''- o, --output=file      : Output file name'',
      CHR 0x09 # ''- d, --duration         : Duration (in ms)'',
      CHR 0x09 # ''- f, --map-factor       : Map factor (default: 1.0)'',
      CHR 0x09 # ''- s, --map-source       : Map source'',
      CHR 0x09 # ''- z, --map-zoom         : Map zoom'',
      CHR 0x09 # ''- l, --map-list         : Dump supported map list'',
      CHR 0x09 # ''- v, --verbose          : Show trace'',
      CHR 0x09 # ''- q, --quiet            : Quiet mode'',
      CHR 0x09 # ''- h, --help             : Show this help screen'',
      [],
      ''Command:'',
      CHR 0x09 # '' sync  : Synchronize GoPro stream timestamp with embedded GPS'',
      CHR 0x09 # '' clear : Clear cache'',
      CHR 0x09 # '' map   : Build map from gpx data'',
      CHR 0x09 # '' track : Build map with track from gpx data'',
      CHR 0x09 # '' video : Process video'']"

text \<open>An \<open>int\<close> as \<open>std::cout\<close> writes it.\<close>

function decimal_of_nat :: "nat \<Rightarrow> string" where
  "decimal_of_nat n =
     (if n < 10 then [char_of (48 + n)] else decimal_of_nat (n div 10) @ [char_of (48 + n mod 10)])"
  by pat_completeness auto
termination
  by (relation "measure (\<lambda>n. n)") auto

definition decimal_of_int :: "int \<Rightarrow> string" where
  "decimal_of_int i = (if i < 0 then CHR ''-'' # decimal_of_nat (nat (- i)) else decimal_of_nat (nat i))"

text \<open>
  The lines \<open>print_map_list\<close> writes. mapsettings.h is not part of the sources at hand:
  \<open>first\<close> is \<open>MapSettings::SourceNull\<close> and \<open>table\<close> gives, for each source from
  \<open>SourceNull\<close> up to \<open>SourceCount\<close>, its friendly name, its copyright and its URI.
\<close>

fun map_list_lines :: "int \<Rightarrow> (string \<times> string \<times> string) list \<Rightarrow> string list" where
  "map_list_lines i [] = []"
| "map_list_lines i ((name, copyright, uri) # rest) =
     (if uri = [] then map_list_lines (i + 1) rest
      else (CHR 0x09 # ''- '' @ decimal_of_int i @ '':'' @ [CHR 0x09] @ name @ '' '' @ copyright)
             # map_list_lines (i + 1) rest)"

definition print_map_list :: "int \<Rightarrow> (string \<times> string \<times> string) list \<Rightarrow> string \<Rightarrow> string list" where
  "print_map_list first table name = (''Map list: '' @ name) # map_list_lines first table"

text \<open>The three tasks \<open>main\<close> can create.\<close>

datatype Task = TimeSyncTask | MapTask | RendererTask

text \<open>What \<open>main\<close> does that can be seen from outside, one constructor per call.\<close>

datatype action =
  EventBaseNew
  | LogNotice string
  | SetLogLevel
  | Cout string
  | Create Task
  | Append Task
  | Exec
  | Delete Task
  | EventBaseFree
  | Exit int

definition EXIT_SUCCESS :: int where
  "EXIT_SUCCESS = 0"

text \<open>
  What \<open>main\<close> takes from code that is not part of the sources at hand: the version
  string, the map source table, \<open>MapSettings::SourceOpenStreetMap\<close>, the C library, the
  application object as its constructor leaves it, and the event loop \<open>app.exec()\<close>.
  The loop works on whatever the process keeps outside itself (a state of type
  \<open>'st\<close>: the files on disk) with the tasks appended so far; \<open>None\<close> is a loop that
  never returns.
\<close>

record 'st env =
  version :: string
  SourceNull :: int
  source_table :: "(string \<times> string \<times> string) list"
  SourceOpenStreetMap :: int
  clib :: libc
  constructed :: GPX2Video
  exec :: "Task list \<Rightarrow> 'st \<Rightarrow> 'st option"

text \<open>
  A run of \<open>main\<close>: the actions in their order, and, when the process reaches
  \<open>exit\<close>, the status it exits with and the outside state it leaves.
\<close>

record 'st run =
  trace :: "action list"
  final :: "(int \<times> 'st) option"

text \<open>
  From the label \<open>exit:\<close> on: the tasks that were created are deleted in the order
  map, renderer, timesync, and the process exits.
\<close>

definition at_exit :: "action list \<Rightarrow> Task list \<Rightarrow> 'st \<Rightarrow> 'st run" where
  "at_exit sofar created st =
     \<lparr>trace = sofar @ map Delete (filter (\<lambda>t. t \<in> set created) [MapTask, RendererTask, TimeSyncTask])
                @ [EventBaseFree, Exit EXIT_SUCCESS],
      final = Some (EXIT_SUCCESS, st)\<rparr>"

text \<open>\<open>app.exec()\<close> and what follows it.\<close>

definition enter_loop :: "'st env \<Rightarrow> action list \<Rightarrow> Task list \<Rightarrow> 'st \<Rightarrow> 'st run" where
  "enter_loop e sofar appended st =
     (case exec e appended st of
        None \<Rightarrow> \<lparr>trace = sofar @ [Exec], final = None\<rparr>
      | Some st' \<Rightarrow> at_exit (sofar @ [Exec]) appended st')"

text \<open>The \<open>switch (app.command())\<close> of \<open>main\<close>.\<close>

definition command_switch ::
  "'st env \<Rightarrow> string \<Rightarrow> Command \<Rightarrow> action list \<Rightarrow> 'st \<Rightarrow> 'st run" where
  "command_switch e name cmd sofar st =
     (case cmd of
        CommandSource \<Rightarrow>
          at_exit (sofar @ map Cout (print_map_list (SourceNull e) (source_table e) name)) [] st
      | CommandSync \<Rightarrow>
          enter_loop e (sofar @ [Create TimeSyncTask, Append TimeSyncTask]) [TimeSyncTask] st
      | CommandClear \<Rightarrow> at_exit (sofar @ [LogNotice ''Not yet implemented'']) [] st
      | CommandMap \<Rightarrow> enter_loop e (sofar @ [Create MapTask, Append MapTask]) [MapTask] st
      | CommandTrack \<Rightarrow> at_exit (sofar @ [LogNotice ''Not yet implemented'']) [] st
      | CommandVideo \<Rightarrow>
          enter_loop e
            (sofar @ [Create TimeSyncTask, Append TimeSyncTask, Create MapTask, Append MapTask,
                     Create RendererTask, Append RendererTask])
            [TimeSyncTask, MapTask, RendererTask] st
      | CommandOther k \<Rightarrow> at_exit (sofar @ [LogNotice ''Command not supported'']) [] st)"

text \<open>\<open>main\<close>; \<open>None\<close> is undefined behaviour in \<open>parseCommandLine\<close>.\<close>

definition main :: "'st env \<Rightarrow> cmdline \<Rightarrow> 'st \<Rightarrow> 'st run option" where
  "main e cl st =
     (case parseCommandLine (clib e) (SourceOpenStreetMap e) cl (constructed e) of
        None \<Rightarrow> None
      | Some (result, app, out) \<Rightarrow>
          (let sofar = [EventBaseNew, LogNotice (''gpx2video v'' @ version e), SetLogLevel]
                        @ map Cout out
           in if result < 0 then Some (at_exit (sofar @ map Cout (print_usage (argv0 cl))) [] st)
              else Some (command_switch e (argv0 cl) (command app) sofar st)))"

section \<open>The tile cache, as specified\<close>

text \<open>
  Modelled from the spec: the tile cache (no source file of it is at hand). A
  \<open>TileKey\<close> is a source identifier, a zoom level, a tile x and a tile y. The persisted
  store maps a key to its tile. \<open>fetch\<close> returns a stored tile without any external
  call; on a miss it invokes the external fetch, persists the result under the key and
  returns it. The number of external fetch calls is counted beside the store.
\<close>

record TileKey =
  key_source :: string
  key_zoom :: nat
  key_x :: int
  key_y :: int

type_synonym 'tile tile_store = "TileKey \<Rightarrow> 'tile option"

definition fetch ::
  "(TileKey \<Rightarrow> 'tile) \<Rightarrow> TileKey \<Rightarrow> 'tile tile_store \<times> nat \<Rightarrow> 'tile \<times> 'tile tile_store \<times> nat" where
  "fetch external k s =
     (case fst s k of
        Some t \<Rightarrow> (t, s)
      | None \<Rightarrow> (external k, (fst s)(k \<mapsto> external k), snd s + 1))"

text \<open>Modelled from the spec: the clear cache operation purges the store.\<close>

definition purge :: "'tile tile_store \<Rightarrow> 'tile tile_store" where
  "purge store = Map.empty"

text \<open>
  The scenario of the spec around a run of the program: a key is fetched, the program
  runs on the persisted store, and the key is fetched again on the store the run
  leaves. The result is the number of external fetch calls, when the run exits.
\<close>

definition fetch_run_fetch ::
  "(TileKey \<Rightarrow> 'tile) \<Rightarrow> 'tile tile_store env \<Rightarrow> cmdline \<Rightarrow> TileKey \<Rightarrow> nat option" where
  "fetch_run_fetch external e cl k =
     (case fetch external k (Map.empty, 0) of
        (t, store1, n1) \<Rightarrow>
          (case main e cl store1 of
             None \<Rightarrow> None
           | Some r \<Rightarrow>
               (case final r of
                  None \<Rightarrow> None
                | Some (status, store2) \<Rightarrow> Some (snd (snd (fetch external k (store2, n1)))))))"

section \<open>Reading a run\<close>

text \<open>The tasks appended in a sequence of actions, in their order.\<close>

fun appended :: "action list \<Rightarrow> Task list" where
  "appended [] = []"
| "appended (Append t # rest) = t # appended rest"
| "appended (a # rest) = appended rest"

section \<open>Concrete inputs\<close>

text \<open>
  A command line, an environment, a latitude and a tile key on which the definitions
  above are evaluated.
\<close>

definition with_arg :: "char \<Rightarrow> string \<Rightarrow> getopt_result" where
  "with_arg c a = \<lparr>opt = c, optarg = Some a, longindex = 0\<rparr>"

definition no_arg :: "char \<Rightarrow> getopt_result" where
  "no_arg c = \<lparr>opt = c, optarg = None, longindex = 0\<rparr>"

definition three_files :: "getopt_result list" where
  "three_files =
     [with_arg CHR ''m'' ''in.mp4'', with_arg CHR ''g'' ''track.gpx'', with_arg CHR ''o'' ''out.mp4'']"

definition command_line :: "getopt_result list \<Rightarrow> string list \<Rightarrow> cmdline" where
  "command_line gs args = \<lparr>argv0 = ''gpx2video'', getopt_returns = gs, remaining = args\<rparr>"

definition some_libc :: libc where
  "some_libc = \<lparr>atoi = (\<lambda>s. 0), strtod = (\<lambda>s. Finite 0)\<rparr>"

definition some_app :: GPX2Video where
  "some_app = \<lparr>command = CommandOther 0,
               settings = Settings.make [] [] [] (Finite 1) 12 0 1\<rparr>"

definition some_env :: "'st env" where
  "some_env =
     \<lparr>version = ''0.0.1'', SourceNull = 0, source_table = [], SourceOpenStreetMap = 1,
      clib = some_libc, constructed = some_app, exec = (\<lambda>tasks st. Some st)\<rparr>"

definition some_latitude :: "string \<Rightarrow> double option \<Rightarrow> bool \<Rightarrow> Latitude" where
  "some_latitude txt v base_ok =
     \<lparr>node = 7, getValue = txt, convert = v, Decimal_validate = (\<lambda>report. (base_ok, report))\<rparr>"

definition some_widget :: "c_int \<Rightarrow> c_int \<Rightarrow> c_int \<Rightarrow> unit TimeWidget" where
  "some_widget x h p =
     \<lparr>widget = \<lparr>widget_x = x, widget_y = 10, widget_width = 200, widget_height = h,
                 widget_padding = p, widget_border = 2, widget_label = ''TIME''\<rparr>,
      app_time = 0,
      localtime_r = (\<lambda>t. \<lparr>tm_hour = 14, tm_min = 5, tm_sec = 9\<rparr>),
      drawLabel = (\<lambda>buf x y s. buf),
      drawValue = (\<lambda>buf x y s. buf)\<rparr>"

definition some_key :: TileKey where
  "some_key = \<lparr>key_source = ''A'', key_zoom = 12, key_x = 3, key_y = 4\<rparr>"

section \<open>Properties of Latitude::validate\<close>

lemma Latitude_validate_base_fails:
  "\<not> fst (Decimal_validate lat report) \<Longrightarrow> Latitude_validate lat report = Decimal_validate lat report"
  by (cases "Decimal_validate lat report") (simp add: Latitude_validate_def)

lemma Latitude_validate_no_convert:
  "convert lat = None \<Longrightarrow> Latitude_validate lat report = Decimal_validate lat report"
  by (cases "Decimal_validate lat report") (simp add: Latitude_validate_def)

lemma Latitude_validate_outside:
  assumes "Decimal_validate lat report = (True, report1)"
    and "convert lat = Some v"
    and "double_less v (Finite (- 90)) \<or> double_less (Finite 90) v"
  shows "Latitude_validate lat report =
           (False, report_if_set report1 (node lat) INCORRECT_VALUE (getValue lat))"
  using assms by (simp add: Latitude_validate_def)

lemma Latitude_validate_not_outside:
  assumes "convert lat = Some v"
    and "\<not> double_less v (Finite (- 90))" and "\<not> double_less (Finite 90) v"
  shows "Latitude_validate lat report = Decimal_validate lat report"
  using assms by (cases "Decimal_validate lat report") (simp add: Latitude_validate_def)

lemma double_le_inside:
  "double_le (Finite (- 90)) v \<Longrightarrow> double_le v (Finite 90)
     \<Longrightarrow> \<not> double_less v (Finite (- 90)) \<and> \<not> double_less (Finite 90) v"
  by (cases v) simp_all

section \<open>The option loop\<close>

lemma option_switch_Continue_media:
  assumes "option_switch c g l app out = Some (Continue l' out')"
  shows "(mediafile l' \<noteq> None) = (mediafile l \<noteq> None \<or> opt g = CHR ''m'')"
  using assms unfolding option_switch_def
  by (simp split: if_splits option.splits) auto

lemma option_switch_Continue_gpx:
  assumes "option_switch c g l app out = Some (Continue l' out')"
  shows "(gpxfile l' \<noteq> None) = (gpxfile l \<noteq> None \<or> opt g = CHR ''g'')"
  using assms unfolding option_switch_def
  by (simp split: if_splits option.splits) auto

lemma option_switch_Continue_output:
  assumes "option_switch c g l app out = Some (Continue l' out')"
  shows "(outputfile l' \<noteq> None) = (outputfile l \<noteq> None \<or> opt g = CHR ''o'')"
  using assms unfolding option_switch_def
  by (simp split: if_splits option.splits) auto

lemma option_switch_map_list:
  "opt g = CHR ''l'' \<Longrightarrow>
     option_switch c g l app out = Some (Return 0 (setCommand CommandSource app) out)"
  by (simp add: option_switch_def)

lemma option_loop_Cons_Continue:
  assumes "option_loop c (g # gs) l app out = Some (Continue l' out')"
  obtains l1 out1 where "option_switch c g l app out = Some (Continue l1 out1)"
    and "option_loop c gs l1 app out1 = Some (Continue l' out')"
  using assms by (simp split: option.splits switch_result.splits)

lemma disj_insert_image:
  "((A \<or> f g = x) \<or> x \<in> f ` set gs) = (A \<or> x \<in> f ` set (g # gs))"
  by auto

lemma option_loop_Continue_media:
  "option_loop c gs l app out = Some (Continue l' out') \<Longrightarrow>
     (mediafile l' \<noteq> None) = (mediafile l \<noteq> None \<or> CHR ''m'' \<in> opt ` set gs)"
proof (induction gs arbitrary: l out)
  case Nil
  then show ?case by simp
next
  case (Cons g gs)
  from Cons.prems obtain l1 out1
    where sw: "option_switch c g l app out = Some (Continue l1 out1)"
      and lp: "option_loop c gs l1 app out1 = Some (Continue l' out')"
    by (rule option_loop_Cons_Continue)
  have "(mediafile l' \<noteq> None) = (mediafile l1 \<noteq> None \<or> CHR ''m'' \<in> opt ` set gs)"
    by (rule Cons.IH [OF lp])
  also have "\<dots> = ((mediafile l \<noteq> None \<or> opt g = CHR ''m'') \<or> CHR ''m'' \<in> opt ` set gs)"
    by (simp only: option_switch_Continue_media [OF sw])
  also have "\<dots> = (mediafile l \<noteq> None \<or> CHR ''m'' \<in> opt ` set (g # gs))"
    by (rule disj_insert_image)
  finally show ?case .
qed

lemma option_loop_Continue_gpx:
  "option_loop c gs l app out = Some (Continue l' out') \<Longrightarrow>
     (gpxfile l' \<noteq> None) = (gpxfile l \<noteq> None \<or> CHR ''g'' \<in> opt ` set gs)"
proof (induction gs arbitrary: l out)
  case Nil
  then show ?case by simp
next
  case (Cons g gs)
  from Cons.prems obtain l1 out1
    where sw: "option_switch c g l app out = Some (Continue l1 out1)"
      and lp: "option_loop c gs l1 app out1 = Some (Continue l' out')"
    by (rule option_loop_Cons_Continue)
  have "(gpxfile l' \<noteq> None) = (gpxfile l1 \<noteq> None \<or> CHR ''g'' \<in> opt ` set gs)"
    by (rule Cons.IH [OF lp])
  also have "\<dots> = ((gpxfile l \<noteq> None \<or> opt g = CHR ''g'') \<or> CHR ''g'' \<in> opt ` set gs)"
    by (simp only: option_switch_Continue_gpx [OF sw])
  also have "\<dots> = (gpxfile l \<noteq> None \<or> CHR ''g'' \<in> opt ` set (g # gs))"
    by (rule disj_insert_image)
  finally show ?case .
qed

lemma option_loop_Continue_output:
  "option_loop c gs l app out = Some (Continue l' out') \<Longrightarrow>
     (outputfile l' \<noteq> None) = (outputfile l \<noteq> None \<or> CHR ''o'' \<in> opt ` set gs)"
proof (induction gs arbitrary: l out)
  case Nil
  then show ?case by simp
next
  case (Cons g gs)
  from Cons.prems obtain l1 out1
    where sw: "option_switch c g l app out = Some (Continue l1 out1)"
      and lp: "option_loop c gs l1 app out1 = Some (Continue l' out')"
    by (rule option_loop_Cons_Continue)
  have "(outputfile l' \<noteq> None) = (outputfile l1 \<noteq> None \<or> CHR ''o'' \<in> opt ` set gs)"
    by (rule Cons.IH [OF lp])
  also have "\<dots> = ((outputfile l \<noteq> None \<or> opt g = CHR ''o'') \<or> CHR ''o'' \<in> opt ` set gs)"
    by (simp only: option_switch_Continue_output [OF sw])
  also have "\<dots> = (outputfile l \<noteq> None \<or> CHR ''o'' \<in> opt ` set (g # gs))"
    by (rule disj_insert_image)
  finally show ?case .
qed

lemma option_loop_present:
  assumes "option_loop c gs (initial_locals osm) app [] = Some (Continue l out)"
  shows "(mediafile l \<noteq> None) = (CHR ''m'' \<in> opt ` set gs)"
    and "(gpxfile l \<noteq> None) = (CHR ''g'' \<in> opt ` set gs)"
    and "(outputfile l \<noteq> None) = (CHR ''o'' \<in> opt ` set gs)"
  using option_loop_Continue_media [OF assms] option_loop_Continue_gpx [OF assms]
    option_loop_Continue_output [OF assms]
  by (simp_all add: initial_locals_def)

lemma option_loop_append:
  "option_loop c pre l app out = Some (Continue l1 out1) \<Longrightarrow>
     option_loop c (pre @ post) l app out = option_loop c post l1 app out1"
proof (induction pre arbitrary: l out)
  case Nil
  then show ?case by simp
next
  case (Cons g gs)
  from Cons.prems obtain l2 out2
    where sw: "option_switch c g l app out = Some (Continue l2 out2)"
      and lp: "option_loop c gs l2 app out2 = Some (Continue l1 out1)"
    by (rule option_loop_Cons_Continue)
  show ?case using Cons.IH [OF lp] sw by simp
qed

section \<open>After the options\<close>

lemma parseCommandLine_Continue:
  "option_loop c (getopt_returns cl) (initial_locals osm) app [] = Some (Continue l out) \<Longrightarrow>
     parseCommandLine c osm cl app = Some (after_options (argv0 cl) (remaining cl) l app out)"
  by (simp add: parseCommandLine_def)

lemma after_options_no_media:
  "mediafile l = None \<Longrightarrow>
     after_options name args l app out = (- 1, app, out @ [name @ '': option '--media' is required''])"
  by (simp add: after_options_def)

lemma after_options_no_gpx:
  "mediafile l \<noteq> None \<Longrightarrow> gpxfile l = None \<Longrightarrow>
     after_options name args l app out = (- 1, app, out @ [name @ '': option '--gpx' is required''])"
  by (cases "mediafile l") (simp_all add: after_options_def)

lemma after_options_no_output:
  "mediafile l \<noteq> None \<Longrightarrow> gpxfile l \<noteq> None \<Longrightarrow> outputfile l = None \<Longrightarrow>
     after_options name args l app out = (- 1, app, out @ [name @ '': option '--output' is required''])"
  by (cases "mediafile l"; cases "gpxfile l") (simp_all add: after_options_def)

lemma after_options_word:
  assumes "mediafile l = Some media" "gpxfile l = Some gpx" "outputfile l = Some output"
    and "command_of_word w = Some cmd"
  shows "after_options name [w] l app out =
           (0, app\<lparr>command := cmd,
                   settings := Settings.make gpx media output (map_factor l) (map_zoom l)
                                 (max_duration_ms l) (map_source l)\<rparr>, out)"
  using assms by (simp add: after_options_def setSettings_def setCommand_def Let_def)

lemma after_options_unknown:
  assumes "mediafile l \<noteq> None" "gpxfile l \<noteq> None" "outputfile l \<noteq> None"
    and "command_of_word w = None"
  shows "after_options name [w] l app out =
           (- 1, app, out @ [name @ '': command '' @ [CHR 0x27] @ w @ [CHR 0x27] @ '' unknown''])"
  using assms
  by (cases "mediafile l"; cases "gpxfile l"; cases "outputfile l")
     (simp_all add: after_options_def Let_def)

lemma after_options_default:
  assumes "mediafile l = Some media" "gpxfile l = Some gpx" "outputfile l = Some output"
    and "length args \<noteq> 1"
  shows "after_options name args l app out =
           (0, app\<lparr>command := CommandVideo,
                   settings := Settings.make gpx media output (map_factor l) (map_zoom l)
                                 (max_duration_ms l) (map_source l)\<rparr>, out)"
  using assms by (simp add: after_options_def setSettings_def setCommand_def Let_def)

lemma command_of_word_None:
  "w \<noteq> ''sync'' \<Longrightarrow> w \<noteq> ''clear'' \<Longrightarrow> w \<noteq> ''map'' \<Longrightarrow> w \<noteq> ''track'' \<Longrightarrow> w \<noteq> ''video''
     \<Longrightarrow> command_of_word w = None"
  by (simp add: command_of_word_def)

lemma three_files_loop:
  "option_loop some_libc three_files (initial_locals osm) app [] =
     Some (Continue ((initial_locals osm)
             \<lparr>gpxfile := Some ''track.gpx'', mediafile := Some ''in.mp4'',
              outputfile := Some ''out.mp4''\<rparr>) [])"
  by (simp add: three_files_def with_arg_def option_switch_def initial_locals_def)

lemma three_files_present:
  "CHR ''m'' \<in> opt ` set three_files" "CHR ''g'' \<in> opt ` set three_files"
  "CHR ''o'' \<in> opt ` set three_files"
  by (simp_all add: three_files_def with_arg_def)

section \<open>The command word\<close>

text \<open>
  Claim C5. Let the option loop run to its end (\<open>getopt_long\<close> returns \<open>-1\<close> and no case
  has returned before), let the media, gpx and output options be among the options
  read, and let exactly one argument \<open>w\<close> remain. Then for each of the words \<open>sync\<close>,
  \<open>clear\<close>, \<open>map\<close>, \<open>track\<close> and \<open>video\<close>, \<open>parseCommandLine\<close> returns 0 with the command of
  that name selected; for any other word it writes that the command is unknown and
  returns \<open>-1\<close>, leaving the application object as it was.
\<close>

theorem parseCommandLine_command_word:
  assumes "option_loop c (getopt_returns cl) (initial_locals osm) app [] = Some (Continue l out)"
    and "CHR ''m'' \<in> opt ` set (getopt_returns cl)"
    and "CHR ''g'' \<in> opt ` set (getopt_returns cl)"
    and "CHR ''o'' \<in> opt ` set (getopt_returns cl)"
    and "remaining cl = [w]"
  shows "(w = ''sync'' \<longrightarrow> (\<exists>s. parseCommandLine c osm cl app =
            Some (0, app\<lparr>command := CommandSync, settings := s\<rparr>, out)))
       \<and> (w = ''clear'' \<longrightarrow> (\<exists>s. parseCommandLine c osm cl app =
            Some (0, app\<lparr>command := CommandClear, settings := s\<rparr>, out)))
       \<and> (w = ''map'' \<longrightarrow> (\<exists>s. parseCommandLine c osm cl app =
            Some (0, app\<lparr>command := CommandMap, settings := s\<rparr>, out)))
       \<and> (w = ''track'' \<longrightarrow> (\<exists>s. parseCommandLine c osm cl app =
            Some (0, app\<lparr>command := CommandTrack, settings := s\<rparr>, out)))
       \<and> (w = ''video'' \<longrightarrow> (\<exists>s. parseCommandLine c osm cl app =
            Some (0, app\<lparr>command := CommandVideo, settings := s\<rparr>, out)))
       \<and> (w \<noteq> ''sync'' \<and> w \<noteq> ''clear'' \<and> w \<noteq> ''map'' \<and> w \<noteq> ''track'' \<and> w \<noteq> ''video'' \<longrightarrow>
            parseCommandLine c osm cl app =
              Some (- 1, app,
                    out @ [argv0 cl @ '': command '' @ [CHR 0x27] @ w @ [CHR 0x27] @ '' unknown'']))"
proof -
  note loop = assms(1)
  from option_loop_present [OF loop] assms(2-4)
  obtain media gpx outfile
    where files: "mediafile l = Some media" "gpxfile l = Some gpx" "outputfile l = Some outfile"
    by auto
  have present: "mediafile l \<noteq> None" "gpxfile l \<noteq> None" "outputfile l \<noteq> None"
    using files by simp_all
  have parse: "parseCommandLine c osm cl app = Some (after_options (argv0 cl) [w] l app out)"
    using parseCommandLine_Continue [OF loop] assms(5) by simp
  have known: "\<exists>s. parseCommandLine c osm cl app = Some (0, app\<lparr>command := cmd, settings := s\<rparr>, out)"
    if "command_of_word w = Some cmd" for cmd
  proof -
    have "parseCommandLine c osm cl app =
        Some (0, app\<lparr>command := cmd,
                     settings := Settings.make gpx media outfile (map_factor l) (map_zoom l)
                                   (max_duration_ms l) (map_source l)\<rparr>, out)"
      using parse after_options_word [OF files that] by simp
    then show ?thesis by blast
  qed
  have w_sync: "w = ''sync'' \<Longrightarrow> command_of_word w = Some CommandSync"
    by (simp add: command_of_word_def)
  have w_clear: "w = ''clear'' \<Longrightarrow> command_of_word w = Some CommandClear"
    by (simp add: command_of_word_def)
  have w_map: "w = ''map'' \<Longrightarrow> command_of_word w = Some CommandMap"
    by (simp add: command_of_word_def)
  have w_track: "w = ''track'' \<Longrightarrow> command_of_word w = Some CommandTrack"
    by (simp add: command_of_word_def)
  have w_video: "w = ''video'' \<Longrightarrow> command_of_word w = Some CommandVideo"
    by (simp add: command_of_word_def)
  have unknown: "parseCommandLine c osm cl app =
      Some (- 1, app, out @ [argv0 cl @ '': command '' @ [CHR 0x27] @ w @ [CHR 0x27] @ '' unknown''])"
    if "w \<noteq> ''sync''" "w \<noteq> ''clear''" "w \<noteq> ''map''" "w \<noteq> ''track''" "w \<noteq> ''video''"
    using parse after_options_unknown [OF present command_of_word_None [OF that]] by simp
  show ?thesis
    using known [OF w_sync] known [OF w_clear] known [OF w_map] known [OF w_track] known [OF w_video] unknown
    by blast
qed

theorem parseCommandLine_command_word_witness:
  "(\<exists>s. parseCommandLine some_libc 1 (command_line three_files [''map'']) some_app =
          Some (0, some_app\<lparr>command := CommandMap, settings := s\<rparr>, []))
   \<and> parseCommandLine some_libc 1 (command_line three_files [''play'']) some_app =
          Some (- 1, some_app, [''gpx2video: command 'play' unknown''])"
proof -
  have loop: "option_loop some_libc (getopt_returns (command_line three_files args))
                (initial_locals 1) some_app [] =
              Some (Continue ((initial_locals 1)
                \<lparr>gpxfile := Some ''track.gpx'', mediafile := Some ''in.mp4'',
                 outputfile := Some ''out.mp4''\<rparr>) [])" for args
    using three_files_loop [of 1 some_app] by (simp add: command_line_def)
  have files: "CHR ''m'' \<in> opt ` set (getopt_returns (command_line three_files args))"
    "CHR ''g'' \<in> opt ` set (getopt_returns (command_line three_files args))"
    "CHR ''o'' \<in> opt ` set (getopt_returns (command_line three_files args))" for args
    using three_files_present by (simp_all add: command_line_def)
  have one: "remaining (command_line three_files [w]) = [w]" for w
    by (simp add: command_line_def)
  show ?thesis
    using parseCommandLine_command_word [OF loop files one, of "''map''"]
      parseCommandLine_command_word [OF loop files one, of "''play''"]
    by (simp add: command_line_def)
qed

section \<open>The required options\<close>

text \<open>
  Claim C6. Let the option loop run to its end, which it does only when neither the
  help option nor the map-list option is read and no option makes a case return. If the
  media option is absent, \<open>parseCommandLine\<close> writes that \<open>--media\<close> is required; if it
  is present and the gpx option is absent, that \<open>--gpx\<close> is required; if both are present
  and the output option is absent, that \<open>--output\<close> is required. In each case it returns
  \<open>-1\<close> and the application object is as it was: no settings are saved.
\<close>

theorem parseCommandLine_required_options:
  assumes "option_loop c (getopt_returns cl) (initial_locals osm) app [] = Some (Continue l out)"
  shows "(CHR ''m'' \<notin> opt ` set (getopt_returns cl) \<longrightarrow>
            parseCommandLine c osm cl app =
              Some (- 1, app, out @ [argv0 cl @ '': option '--media' is required'']))
       \<and> (CHR ''m'' \<in> opt ` set (getopt_returns cl) \<and> CHR ''g'' \<notin> opt ` set (getopt_returns cl) \<longrightarrow>
            parseCommandLine c osm cl app =
              Some (- 1, app, out @ [argv0 cl @ '': option '--gpx' is required'']))
       \<and> (CHR ''m'' \<in> opt ` set (getopt_returns cl) \<and> CHR ''g'' \<in> opt ` set (getopt_returns cl)
            \<and> CHR ''o'' \<notin> opt ` set (getopt_returns cl) \<longrightarrow>
            parseCommandLine c osm cl app =
              Some (- 1, app, out @ [argv0 cl @ '': option '--output' is required'']))"
proof -
  note parse = parseCommandLine_Continue [OF assms]
  note present = option_loop_present [OF assms]
  have no_media: "parseCommandLine c osm cl app =
      Some (- 1, app, out @ [argv0 cl @ '': option '--media' is required''])"
    if "mediafile l = None"
    using parse after_options_no_media [OF that] by simp
  have no_gpx: "parseCommandLine c osm cl app =
      Some (- 1, app, out @ [argv0 cl @ '': option '--gpx' is required''])"
    if "mediafile l \<noteq> None" "gpxfile l = None"
    using parse after_options_no_gpx [OF that] by simp
  have no_output: "parseCommandLine c osm cl app =
      Some (- 1, app, out @ [argv0 cl @ '': option '--output' is required''])"
    if "mediafile l \<noteq> None" "gpxfile l \<noteq> None" "outputfile l = None"
    using parse after_options_no_output [OF that] by simp
  show ?thesis
    using no_media no_gpx no_output present by blast
qed

lemma help_list_end_loop:
  assumes "option_loop c gs l app out = Some (Continue l' out')"
  shows "CHR ''h'' \<notin> opt ` set gs \<and> CHR ''l'' \<notin> opt ` set gs"
  using assms
proof (induction gs arbitrary: l out)
  case Nil
  then show ?case by simp
next
  case (Cons g gs)
  from Cons.prems obtain l1 out1
    where sw: "option_switch c g l app out = Some (Continue l1 out1)"
      and lp: "option_loop c gs l1 app out1 = Some (Continue l' out')"
    by (rule option_loop_Cons_Continue)
  have "opt g \<noteq> CHR ''h'' \<and> opt g \<noteq> CHR ''l''"
    using sw unfolding option_switch_def by (simp split: if_splits option.splits)
  with Cons.IH [OF lp] show ?case by (simp add: image_iff) metis
qed

theorem parseCommandLine_required_options_witness:
  "CHR ''m'' \<in> opt ` set [with_arg CHR ''m'' ''in.mp4'']
   \<and> CHR ''g'' \<notin> opt ` set [with_arg CHR ''m'' ''in.mp4'']
   \<and> parseCommandLine some_libc 1 (command_line [with_arg CHR ''m'' ''in.mp4''] [''video'']) some_app =
         Some (- 1, some_app, [''gpx2video: option '--gpx' is required''])"
proof -
  have loop: "option_loop some_libc
                (getopt_returns (command_line [with_arg CHR ''m'' ''in.mp4''] [''video'']))
                (initial_locals 1) some_app [] =
              Some (Continue ((initial_locals 1)\<lparr>mediafile := Some ''in.mp4''\<rparr>) [])"
    by (simp add: command_line_def with_arg_def option_switch_def initial_locals_def)
  show ?thesis
    using parseCommandLine_required_options [OF loop]
    by (simp add: command_line_def with_arg_def)
qed

section \<open>No command word\<close>

text \<open>
  Claim C10. Let the option loop run to its end and let the media, gpx and output
  options be among the options read. If the number of remaining arguments is not
  exactly one (none, or two or more), \<open>parseCommandLine\<close> selects the video command,
  saves the settings and returns 0, writing nothing about it.
\<close>

theorem parseCommandLine_default_video:
  assumes "option_loop c (getopt_returns cl) (initial_locals osm) app [] = Some (Continue l out)"
    and "CHR ''m'' \<in> opt ` set (getopt_returns cl)"
    and "CHR ''g'' \<in> opt ` set (getopt_returns cl)"
    and "CHR ''o'' \<in> opt ` set (getopt_returns cl)"
    and "length (remaining cl) \<noteq> 1"
  shows "\<exists>s. parseCommandLine c osm cl app =
           Some (0, app\<lparr>command := CommandVideo, settings := s\<rparr>, out)"
proof -
  from option_loop_present [OF assms(1)] assms(2-4)
  obtain media gpx outfile
    where files: "mediafile l = Some media" "gpxfile l = Some gpx" "outputfile l = Some outfile"
    by auto
  have "parseCommandLine c osm cl app =
      Some (0, app\<lparr>command := CommandVideo,
                   settings := Settings.make gpx media outfile (map_factor l) (map_zoom l)
                                 (max_duration_ms l) (map_source l)\<rparr>, out)"
    using parseCommandLine_Continue [OF assms(1)] after_options_default [OF files assms(5)]
    by simp
  then show ?thesis by blast
qed

theorem parseCommandLine_default_video_witness:
  "length ([] :: string list) \<noteq> 1 \<and> length [''map'', ''video''] \<noteq> 1
   \<and> (\<exists>s. parseCommandLine some_libc 1 (command_line three_files []) some_app =
          Some (0, some_app\<lparr>command := CommandVideo, settings := s\<rparr>, []))
   \<and> (\<exists>s. parseCommandLine some_libc 1 (command_line three_files [''map'', ''video'']) some_app =
          Some (0, some_app\<lparr>command := CommandVideo, settings := s\<rparr>, []))"
proof -
  have loop: "option_loop some_libc (getopt_returns (command_line three_files args))
                (initial_locals 1) some_app [] =
              Some (Continue ((initial_locals 1)
                \<lparr>gpxfile := Some ''track.gpx'', mediafile := Some ''in.mp4'',
                 outputfile := Some ''out.mp4''\<rparr>) [])" for args
    using three_files_loop [of 1 some_app] by (simp add: command_line_def)
  have files: "CHR ''m'' \<in> opt ` set (getopt_returns (command_line three_files args))"
    "CHR ''g'' \<in> opt ` set (getopt_returns (command_line three_files args))"
    "CHR ''o'' \<in> opt ` set (getopt_returns (command_line three_files args))" for args
    using three_files_present by (simp_all add: command_line_def)
  have none: "length (remaining (command_line three_files [])) \<noteq> 1"
    by (simp add: command_line_def)
  have two: "length (remaining (command_line three_files [''map'', ''video''])) \<noteq> 1"
    by (simp add: command_line_def)
  show ?thesis
    using parseCommandLine_default_video [OF loop files none]
      parseCommandLine_default_video [OF loop files two]
    by simp
qed

section \<open>The map-list option\<close>

text \<open>
  Claim C9, as the code has it. When \<open>getopt_long\<close> returns the map-list option and
  every option returned before it has let the loop go on (none of them was the help
  option, an option the switch does not know, or a second media, gpx or output option),
  \<open>parseCommandLine\<close> sets the command to \<open>CommandSource\<close> and returns 0 at once: the
  options after it are not read, the required options are not checked and no settings
  are saved.
\<close>

theorem parseCommandLine_map_list:
  assumes "getopt_returns cl = before @ g # later"
    and "opt g = CHR ''l''"
    and "option_loop c before (initial_locals osm) app [] = Some (Continue l out)"
  shows "parseCommandLine c osm cl app = Some (0, app\<lparr>command := CommandSource\<rparr>, out)"
proof -
  have "option_loop c (before @ g # later) (initial_locals osm) app [] =
          option_loop c (g # later) l app out"
    by (rule option_loop_append [OF assms(3)])
  also have "\<dots> = Some (Return 0 (setCommand CommandSource app) out)"
    by (simp add: option_switch_map_list [OF assms(2)])
  finally show ?thesis
    by (simp add: parseCommandLine_def assms(1) setCommand_def)
qed

theorem parseCommandLine_map_list_witness:
  "CHR ''m'' \<notin> opt ` set [no_arg CHR ''v'', no_arg CHR ''l'', no_arg CHR ''h'']
   \<and> parseCommandLine some_libc 1
        (command_line [no_arg CHR ''v'', no_arg CHR ''l'', no_arg CHR ''h''] []) some_app =
       Some (0, some_app\<lparr>command := CommandSource\<rparr>, [])"
proof -
  have split: "getopt_returns (command_line [no_arg CHR ''v'', no_arg CHR ''l'', no_arg CHR ''h''] [])
                 = [no_arg CHR ''v''] @ no_arg CHR ''l'' # [no_arg CHR ''h'']"
    by (simp add: command_line_def)
  have list: "opt (no_arg CHR ''l'') = CHR ''l''"
    by (simp add: no_arg_def)
  have loop: "option_loop some_libc [no_arg CHR ''v''] (initial_locals 1) some_app [] =
                Some (Continue ((initial_locals 1)\<lparr>verbose := 1\<rparr>) [])"
    by (simp add: no_arg_def option_switch_def initial_locals_def)
  show ?thesis
    using parseCommandLine_map_list [OF split list loop]
    by (simp add: no_arg_def)
qed

text \<open>
  The claim as written fails: with the help option before the map-list option, the
  map-list option is on the command line, and \<open>parseCommandLine\<close> returns \<open>-1\<close> with the
  command as it was.
\<close>

theorem parseCommandLine_map_list_counterexample:
  "CHR ''l'' \<in> opt ` set (getopt_returns (command_line [no_arg CHR ''h'', no_arg CHR ''l''] []))
   \<and> parseCommandLine some_libc 1 (command_line [no_arg CHR ''h'', no_arg CHR ''l''] []) some_app =
       Some (- 1, some_app, [])
   \<and> command some_app \<noteq> CommandSource"
  by (simp add: parseCommandLine_def command_line_def no_arg_def option_switch_def some_app_def)

section \<open>The range of a latitude\<close>

text \<open>
  Claim C2, as the code has it. A double lies outside the range when it is below -90 or
  above 90, and inside when it is at least -90 and at most 90 (a NaN is neither). For
  every latitude whose value converts to a double outside the range,
  \<open>Latitude::validate\<close> returns false. When moreover the base \<open>Decimal\<close> validation has
  succeeded and left a non-null report, the report receives, after the calls it had
  received, one call for this node with \<open>INCORRECT_VALUE\<close> and the value's text. For every
  value that converts to a double inside the range, with the base validation
  succeeding, \<open>validate\<close> returns true.
\<close>

theorem Latitude_validate_range:
  "(convert lat = Some v \<and> (double_less v (Finite (- 90)) \<or> double_less (Finite 90) v) \<longrightarrow>
      \<not> fst (Latitude_validate lat report))
   \<and> (Decimal_validate lat report = (True, Some calls) \<and> convert lat = Some v
        \<and> (double_less v (Finite (- 90)) \<or> double_less (Finite 90) v) \<longrightarrow>
      Latitude_validate lat report =
        (False, Some (calls @ [(node lat, INCORRECT_VALUE, getValue lat)])))
   \<and> (fst (Decimal_validate lat report) \<and> convert lat = Some v
        \<and> double_le (Finite (- 90)) v \<and> double_le v (Finite 90) \<longrightarrow>
      fst (Latitude_validate lat report))"
proof (intro conjI impI)
  assume a: "convert lat = Some v \<and> (double_less v (Finite (- 90)) \<or> double_less (Finite 90) v)"
  show "\<not> fst (Latitude_validate lat report)"
  proof (cases "fst (Decimal_validate lat report)")
    case True
    then have "Decimal_validate lat report = (True, snd (Decimal_validate lat report))"
      by (cases "Decimal_validate lat report") simp
    from Latitude_validate_outside [OF this] a show ?thesis by simp
  next
    case False
    then show ?thesis by (simp add: Latitude_validate_base_fails)
  qed
next
  assume a: "Decimal_validate lat report = (True, Some calls) \<and> convert lat = Some v
        \<and> (double_less v (Finite (- 90)) \<or> double_less (Finite 90) v)"
  then have "Latitude_validate lat report =
      (False, report_if_set (Some calls) (node lat) INCORRECT_VALUE (getValue lat))"
    using Latitude_validate_outside [of lat report "Some calls" v] by simp
  then show "Latitude_validate lat report =
      (False, Some (calls @ [(node lat, INCORRECT_VALUE, getValue lat)]))"
    by (simp add: report_if_set_def)
next
  assume a: "fst (Decimal_validate lat report) \<and> convert lat = Some v
        \<and> double_le (Finite (- 90)) v \<and> double_le v (Finite 90)"
  then have "\<not> double_less v (Finite (- 90)) \<and> \<not> double_less (Finite 90) v"
    using double_le_inside by blast
  with a have "Latitude_validate lat report = Decimal_validate lat report"
    using Latitude_validate_not_outside by blast
  with a show "fst (Latitude_validate lat report)" by simp
qed

theorem Latitude_validate_range_witness:
  "Latitude_validate (some_latitude ''91.5'' (Some (Finite (183 / 2))) True) (Some []) =
     (False, Some [(7, INCORRECT_VALUE, ''91.5'')])
   \<and> \<not> fst (Latitude_validate (some_latitude ''-100'' (Some (Finite (- 100))) False) None)
   \<and> fst (Latitude_validate (some_latitude ''45'' (Some (Finite 45)) True) (Some []))"
  using Latitude_validate_range
      [of "some_latitude ''91.5'' (Some (Finite (183 / 2))) True" "Finite (183 / 2)" "Some []" "[]"]
    Latitude_validate_range
      [of "some_latitude ''-100'' (Some (Finite (- 100))) False" "Finite (- 100)" None "[]"]
    Latitude_validate_range
      [of "some_latitude ''45'' (Some (Finite 45)) True" "Finite 45" "Some []" "[]"]
  by (simp add: some_latitude_def)

text \<open>
  The claim as written fails where the base validation fails: the value converts to
  91.5, a non-null report is supplied, \<open>validate\<close> returns false, and the report has
  received no call.
\<close>

theorem Latitude_validate_range_counterexample:
  "convert (some_latitude ''91.5'' (Some (Finite (183 / 2))) False) = Some (Finite (183 / 2))
   \<and> double_less (Finite 90) (Finite (183 / 2))
   \<and> Latitude_validate (some_latitude ''91.5'' (Some (Finite (183 / 2))) False) (Some []) =
       (False, Some [])"
  by (simp add: some_latitude_def Latitude_validate_def)

lemma double_outside_iff:
  "v \<noteq> NaN \<Longrightarrow>
     (\<not> (double_le (Finite (- 90)) v \<and> double_le v (Finite 90))) =
     (double_less v (Finite (- 90)) \<or> double_less (Finite 90) v)"
  by (cases v) auto

section \<open>When a latitude is refused\<close>

text \<open>
  Claim C8, for the values whose conversion is a number. A double lies outside
  [-90, 90] when it is not both at least -90 and at most 90. For every latitude whose
  conversion does not give a NaN, \<open>Latitude::validate\<close> returns false if and only if the
  base \<open>Decimal\<close> validation fails, or the value converts to a double that lies outside
  [-90, 90]. In particular, when the base validation succeeds and the conversion fails,
  \<open>validate\<close> returns true and the report is as the base validation left it.
\<close>

theorem Latitude_validate_false_iff:
  assumes "convert lat \<noteq> Some NaN"
  shows "(\<not> fst (Latitude_validate lat report)) =
     (\<not> fst (Decimal_validate lat report)
      \<or> (\<exists>v. convert lat = Some v
              \<and> \<not> (double_le (Finite (- 90)) v \<and> double_le v (Finite 90))))
   \<and> (fst (Decimal_validate lat report) \<and> convert lat = None \<longrightarrow>
        fst (Latitude_validate lat report)
        \<and> snd (Latitude_validate lat report) = snd (Decimal_validate lat report))"
proof (rule conjI)
  show "(\<not> fst (Latitude_validate lat report)) =
     (\<not> fst (Decimal_validate lat report)
      \<or> (\<exists>v. convert lat = Some v
              \<and> \<not> (double_le (Finite (- 90)) v \<and> double_le v (Finite 90))))"
  proof (cases "fst (Decimal_validate lat report)")
    case False
    then show ?thesis by (simp add: Latitude_validate_base_fails)
  next
    case True
    then have base: "Decimal_validate lat report = (True, snd (Decimal_validate lat report))"
      by (cases "Decimal_validate lat report") simp
    show ?thesis
    proof (cases "convert lat")
      case None
      with True show ?thesis by (simp add: Latitude_validate_no_convert)
    next
      case (Some v)
      with assms have number: "v \<noteq> NaN" by simp
      show ?thesis
      proof (cases "double_less v (Finite (- 90)) \<or> double_less (Finite 90) v")
        case outside: True
        then have "\<not> (double_le (Finite (- 90)) v \<and> double_le v (Finite 90))"
          using double_outside_iff [OF number] by simp
        with Latitude_validate_outside [OF base Some outside] Some True
        show ?thesis by simp
      next
        case inside: False
        then have le: "double_le (Finite (- 90)) v \<and> double_le v (Finite 90)"
          using double_outside_iff [OF number] by simp
        from inside have "Latitude_validate lat report = Decimal_validate lat report"
          using Latitude_validate_not_outside [OF Some] by simp
        with True Some le show ?thesis by simp
      qed
    qed
  qed
next
  show "fst (Decimal_validate lat report) \<and> convert lat = None \<longrightarrow>
        fst (Latitude_validate lat report)
        \<and> snd (Latitude_validate lat report) = snd (Decimal_validate lat report)"
    by (simp add: Latitude_validate_no_convert)
qed

theorem Latitude_validate_false_iff_witness:
  "Latitude_validate (some_latitude ''north'' None True) (Some []) = (True, Some [])
   \<and> \<not> fst (Latitude_validate (some_latitude ''91.5'' (Some (Finite (183 / 2))) True) None)
   \<and> \<not> fst (Latitude_validate (some_latitude ''inf'' (Some PosInf) True) None)
   \<and> fst (Latitude_validate (some_latitude ''-90'' (Some (Finite (- 90))) True) None)
   \<and> \<not> fst (Latitude_validate (some_latitude ''45'' (Some (Finite 45)) False) None)"
proof -
  have n1: "convert (some_latitude ''north'' None True) \<noteq> Some NaN"
    and n2: "convert (some_latitude ''91.5'' (Some (Finite (183 / 2))) True) \<noteq> Some NaN"
    and n3: "convert (some_latitude ''inf'' (Some PosInf) True) \<noteq> Some NaN"
    and n4: "convert (some_latitude ''-90'' (Some (Finite (- 90))) True) \<noteq> Some NaN"
    and n5: "convert (some_latitude ''45'' (Some (Finite 45)) False) \<noteq> Some NaN"
    by (simp_all add: some_latitude_def)
  show ?thesis
    using Latitude_validate_false_iff [OF n1, of "Some []"]
      Latitude_validate_false_iff [OF n2, of None]
      Latitude_validate_false_iff [OF n3, of None]
      Latitude_validate_false_iff [OF n4, of None]
      Latitude_validate_false_iff [OF n5, of None]
    by (simp add: some_latitude_def prod_eq_iff)
qed

text \<open>
  The claim as written fails at a NaN: the base validation succeeds, the value converts
  to a double that is not in [-90, 90], and \<open>validate\<close> returns true with nothing
  reported, since both comparisons of the code are false for a NaN.
\<close>

theorem Latitude_validate_false_iff_counterexample:
  "fst (Decimal_validate (some_latitude ''nan'' (Some NaN) True) (Some []))
   \<and> convert (some_latitude ''nan'' (Some NaN) True) = Some NaN
   \<and> \<not> (double_le (Finite (- 90)) NaN \<and> double_le NaN (Finite 90))
   \<and> Latitude_validate (some_latitude ''nan'' (Some NaN) True) (Some []) = (True, Some [])"
  by (simp add: some_latitude_def Latitude_validate_def)

section \<open>The time widget draws the camera clock\<close>

text \<open>
  Claim C3. For every destination frame buffer and every two telemetry samples,
  \<open>TimeWidget::render\<close> makes the same drawing calls and leaves the same frame: the label
  and, as the value, the application's camera clock in local time as \<open>%H:%M:%S\<close>, both at
  the horizontal position that the sum of three C++ ints gives. The telemetry sample
  takes no part in it.
\<close>

theorem render_ignores_telemetry:
  "render w buf d1 = render w buf d2
   \<and> fst (render w buf d1) =
       [DrawLabel (widget_x (widget w) + widget_height (widget w) + widget_padding (widget w))
          (widget_y (widget w)) (widget_label (widget w)),
        DrawValue (widget_x (widget w) + widget_height (widget w) + widget_padding (widget w))
          (widget_y (widget w)) (strftime_HMS (localtime_r w (app_time w)))]"
  by (simp add: render_def Let_def)

lemma render_position_wraps:
  "fst (render (some_widget 2147483647 1 0) () d) =
     [DrawLabel (- 2147483648) 10 ''TIME'', DrawValue (- 2147483648) 10 ''14:05:09'']
   \<and> sint (- 2147483648 :: c_int) = - 2147483648"
  by (simp add: render_def some_widget_def Let_def strftime_HMS_def two_digits_def char_of_def bit_0)

lemma render_position_plain:
  "fst (render (some_widget 100 40 8) () d) =
     [DrawLabel 148 10 ''TIME'', DrawValue 148 10 ''14:05:09'']"
  by (simp add: render_def some_widget_def Let_def strftime_HMS_def two_digits_def char_of_def bit_0)

section \<open>Runs of main\<close>

lemma appended_append: "appended (xs @ ys) = appended xs @ appended ys"
  by (induction xs rule: appended.induct) simp_all

lemma appended_Cout: "appended (map Cout xs) = []"
  by (induction xs) simp_all

lemma appended_Delete: "appended (map Delete ts) = []"
  by (induction ts) simp_all

lemma Exec_not_Cout: "Exec \<notin> Cout ` set xs"
  by (induction xs) simp_all

lemma main_parsed:
  assumes "parseCommandLine (clib e) (SourceOpenStreetMap e) cl (constructed e) = Some (result, app, out)"
  shows "main e cl st =
           Some (if result < 0
                 then at_exit (([EventBaseNew, LogNotice (''gpx2video v'' @ version e), SetLogLevel]
                                  @ map Cout out) @ map Cout (print_usage (argv0 cl))) [] st
                 else command_switch e (argv0 cl) (command app)
                        ([EventBaseNew, LogNotice (''gpx2video v'' @ version e), SetLogLevel]
                           @ map Cout out) st)"
  using assms by (simp add: main_def Let_def)

lemma at_exit_nothing_created:
  "trace (at_exit sofar [] st) = sofar @ [EventBaseFree, Exit 0]"
  "final (at_exit sofar [] st) = Some (0, st)"
  by (simp_all add: at_exit_def EXIT_SUCCESS_def)

lemma enter_loop_trace:
  "\<exists>post. trace (enter_loop e sofar tasks st) = sofar @ [Exec] @ post \<and> appended post = []"
proof (cases "exec e tasks st")
  case None
  then have "trace (enter_loop e sofar tasks st) = sofar @ [Exec] @ []"
    by (simp add: enter_loop_def)
  then show ?thesis by force
next
  case (Some st')
  let ?post = "map Delete (filter (\<lambda>t. t \<in> set tasks) [MapTask, RendererTask, TimeSyncTask])
                 @ [EventBaseFree, Exit EXIT_SUCCESS]"
  have "trace (enter_loop e sofar tasks st) = sofar @ [Exec] @ ?post"
    using Some by (simp add: enter_loop_def at_exit_def)
  moreover have "appended ?post = []"
    by (simp only: appended_append appended_Delete) simp
  ultimately show ?thesis by blast
qed

lemma enter_loop_run:
  assumes "appended pre = []" and "Exec \<notin> set pre"
  shows "\<exists>pre' post. trace (enter_loop e (pre @ acts) tasks st) = pre' @ (acts @ [Exec]) @ post
           \<and> appended pre' = [] \<and> Exec \<notin> set pre' \<and> appended post = []
           \<and> appended (trace (enter_loop e (pre @ acts) tasks st)) = appended acts"
proof -
  obtain post where post: "trace (enter_loop e (pre @ acts) tasks st) = (pre @ acts) @ [Exec] @ post"
    "appended post = []"
    using enter_loop_trace [of e "pre @ acts" tasks st] by blast
  have tr: "trace (enter_loop e (pre @ acts) tasks st) = pre @ (acts @ [Exec]) @ post"
    using post(1) by simp
  have "appended (pre @ (acts @ [Exec]) @ post) = appended acts"
    using post(2) assms(1) by (simp add: appended_append)
  then have "appended (trace (enter_loop e (pre @ acts) tasks st)) = appended acts"
    by (simp only: tr)
  with tr assms post(2) show ?thesis by blast
qed

section \<open>The exit status after a fatal error\<close>

text \<open>
  Claim C1, as the code has it. For every run of \<open>main\<close> whose command-line parsing
  returns a negative result, or whose command the switch turns away (\<open>clear\<close> and
  \<open>track\<close>, not yet implemented, and any command it does not support), the process
  does not enter the event loop and exits with status 0, \<open>EXIT_SUCCESS\<close>: the one status
  \<open>main\<close> ever exits with.
\<close>

theorem main_fatal_exit_status:
  assumes "parseCommandLine (clib e) (SourceOpenStreetMap e) cl (constructed e) = Some (result, app, out)"
    and "result < 0 \<or> command app = CommandClear \<or> command app = CommandTrack
         \<or> (\<exists>k. command app = CommandOther k)"
  shows "\<exists>r. main e cl st = Some r \<and> final r = Some (0, st) \<and> Exec \<notin> set (trace r)
             \<and> appended (trace r) = []"
proof (cases "result < 0")
  case True
  then have "main e cl st =
      Some (at_exit (([EventBaseNew, LogNotice (''gpx2video v'' @ version e), SetLogLevel]
                        @ map Cout out) @ map Cout (print_usage (argv0 cl))) [] st)"
    using main_parsed [OF assms(1)] by simp
  then show ?thesis
    by (simp add: at_exit_nothing_created appended_append appended_Cout Exec_not_Cout)
next
  case False
  then have run: "main e cl st =
      Some (command_switch e (argv0 cl) (command app)
              ([EventBaseNew, LogNotice (''gpx2video v'' @ version e), SetLogLevel]
                 @ map Cout out) st)"
    using main_parsed [OF assms(1)] by simp
  from False assms(2) consider "command app = CommandClear" | "command app = CommandTrack"
    | k where "command app = CommandOther k"
    by blast
  then show ?thesis
  proof cases
    case 1
    with run show ?thesis
      by (simp add: command_switch_def at_exit_nothing_created appended_append appended_Cout
            Exec_not_Cout)
  next
    case 2
    with run show ?thesis
      by (simp add: command_switch_def at_exit_nothing_created appended_append appended_Cout
            Exec_not_Cout)
  next
    case 3
    with run show ?thesis
      by (simp add: command_switch_def at_exit_nothing_created appended_append appended_Cout
            Exec_not_Cout)
  qed
qed

lemma no_options_parse:
  "parseCommandLine (clib some_env) (SourceOpenStreetMap some_env) (command_line [] [])
     (constructed some_env) =
   Some (- 1, some_app, [''gpx2video: option '--media' is required''])"
  by (simp add: parseCommandLine_def command_line_def some_env_def after_options_def
        initial_locals_def)

theorem main_fatal_exit_status_witness:
  "\<exists>r. main some_env (command_line [] []) (0 :: nat) = Some r \<and> final r = Some (0, 0)
       \<and> Exec \<notin> set (trace r) \<and> appended (trace r) = []"
  using main_fatal_exit_status [OF no_options_parse, of "0 :: nat"] by simp

text \<open>
  The claim as written fails: with no option at all the parse returns \<open>-1\<close>, and the
  process exits with status 0.
\<close>

theorem main_fatal_exit_status_counterexample:
  "parseCommandLine some_libc 1 (command_line [] []) some_app =
     Some (- 1, some_app, [''gpx2video: option '--media' is required''])
   \<and> map_option final (main some_env (command_line [] []) (0 :: nat)) = Some (Some (0, 0))"
proof -
  have "parseCommandLine some_libc 1 (command_line [] []) some_app =
     Some (- 1, some_app, [''gpx2video: option '--media' is required''])"
    using no_options_parse by (simp add: some_env_def)
  moreover have "map_option final (main some_env (command_line [] []) (0 :: nat)) = Some (Some (0, 0))"
    by (simp add: main_parsed [OF no_options_parse] at_exit_nothing_created)
  ultimately show ?thesis by simp
qed

section \<open>The tasks of a command\<close>

text \<open>
  Claim C7. Let the parse succeed. When the video command is selected, \<open>main\<close> creates
  and appends the TimeSync task, then the Map task, then the Renderer task, and then
  enters the event loop; no other task is appended, before or after. When the sync
  command is selected it appends the TimeSync task only, and when the map command is
  selected the Map task only, before it enters the event loop.
\<close>

theorem main_appends_tasks:
  assumes "parseCommandLine (clib e) (SourceOpenStreetMap e) cl (constructed e) = Some (result, app, out)"
    and "\<not> result < 0"
  shows "(command app = CommandVideo \<longrightarrow>
           (\<exists>r pre post. main e cl st = Some r
              \<and> trace r = pre @ [Create TimeSyncTask, Append TimeSyncTask, Create MapTask,
                                 Append MapTask, Create RendererTask, Append RendererTask, Exec] @ post
              \<and> appended pre = [] \<and> Exec \<notin> set pre \<and> appended post = []
              \<and> appended (trace r) = [TimeSyncTask, MapTask, RendererTask]))
       \<and> (command app = CommandSync \<longrightarrow>
           (\<exists>r pre post. main e cl st = Some r
              \<and> trace r = pre @ [Create TimeSyncTask, Append TimeSyncTask, Exec] @ post
              \<and> appended pre = [] \<and> Exec \<notin> set pre \<and> appended post = []
              \<and> appended (trace r) = [TimeSyncTask]))
       \<and> (command app = CommandMap \<longrightarrow>
           (\<exists>r pre post. main e cl st = Some r
              \<and> trace r = pre @ [Create MapTask, Append MapTask, Exec] @ post
              \<and> appended pre = [] \<and> Exec \<notin> set pre \<and> appended post = []
              \<and> appended (trace r) = [MapTask]))"
proof -
  let ?pre = "[EventBaseNew, LogNotice (''gpx2video v'' @ version e), SetLogLevel] @ map Cout out"
  have run: "main e cl st = Some (command_switch e (argv0 cl) (command app) ?pre st)"
    using main_parsed [OF assms(1)] assms(2) by simp
  have pre: "appended ?pre = []" "Exec \<notin> set ?pre"
    using Exec_not_Cout [of out] by (simp_all add: appended_append appended_Cout)
  have loop: "\<exists>r pre post. main e cl st = Some r \<and> trace r = pre @ (acts @ [Exec]) @ post
                \<and> appended pre = [] \<and> Exec \<notin> set pre \<and> appended post = []
                \<and> appended (trace r) = appended acts"
    if "command_switch e (argv0 cl) (command app) ?pre st = enter_loop e (?pre @ acts) tasks st"
    for acts tasks
  proof -
    have "main e cl st = Some (enter_loop e (?pre @ acts) tasks st)"
      using run that by simp
    with enter_loop_run [OF pre, of e acts tasks st] show ?thesis
      by (simp only: option.inject simp_thms ex_simps)
  qed
  have video: "command app = CommandVideo \<Longrightarrow>
      command_switch e (argv0 cl) (command app) ?pre st =
        enter_loop e (?pre @ [Create TimeSyncTask, Append TimeSyncTask, Create MapTask,
                              Append MapTask, Create RendererTask, Append RendererTask])
          [TimeSyncTask, MapTask, RendererTask] st"
    by (simp add: command_switch_def)
  have sync: "command app = CommandSync \<Longrightarrow>
      command_switch e (argv0 cl) (command app) ?pre st =
        enter_loop e (?pre @ [Create TimeSyncTask, Append TimeSyncTask]) [TimeSyncTask] st"
    by (simp add: command_switch_def)
  have mapc: "command app = CommandMap \<Longrightarrow>
      command_switch e (argv0 cl) (command app) ?pre st =
        enter_loop e (?pre @ [Create MapTask, Append MapTask]) [MapTask] st"
    by (simp add: command_switch_def)
  show ?thesis
    using loop [OF video] loop [OF sync] loop [OF mapc] by simp
qed

lemma three_files_parse:
  assumes "command_of_word w = Some cmd"
  shows "parseCommandLine (clib some_env) (SourceOpenStreetMap some_env)
           (command_line three_files [w]) (constructed some_env) =
         Some (0, some_app\<lparr>command := cmd,
                    settings := Settings.make ''track.gpx'' ''in.mp4'' ''out.mp4'' (Finite 1) 12 0 1\<rparr>,
               [])"
proof -
  let ?l = "(initial_locals 1)\<lparr>gpxfile := Some ''track.gpx'', mediafile := Some ''in.mp4'',
                                 outputfile := Some ''out.mp4''\<rparr>"
  have loop: "option_loop some_libc (getopt_returns (command_line three_files [w]))
                (initial_locals 1) some_app [] = Some (Continue ?l [])"
    using three_files_loop [of 1 some_app] by (simp add: command_line_def)
  have files: "mediafile ?l = Some ''in.mp4''" "gpxfile ?l = Some ''track.gpx''"
    "outputfile ?l = Some ''out.mp4''"
    by simp_all
  show ?thesis
    using parseCommandLine_Continue [OF loop]
      after_options_word [OF files assms, of "''gpx2video''" some_app "[]"]
    by (simp add: some_env_def command_line_def initial_locals_def)
qed

theorem main_appends_tasks_witness:
  "(\<exists>r pre post. main some_env (command_line three_files [''video'']) (0 :: nat) = Some r
      \<and> trace r = pre @ [Create TimeSyncTask, Append TimeSyncTask, Create MapTask,
                         Append MapTask, Create RendererTask, Append RendererTask, Exec] @ post
      \<and> appended pre = [] \<and> Exec \<notin> set pre \<and> appended post = []
      \<and> appended (trace r) = [TimeSyncTask, MapTask, RendererTask])
   \<and> (\<exists>r pre post. main some_env (command_line three_files [''sync'']) (0 :: nat) = Some r
      \<and> trace r = pre @ [Create TimeSyncTask, Append TimeSyncTask, Exec] @ post
      \<and> appended pre = [] \<and> Exec \<notin> set pre \<and> appended post = []
      \<and> appended (trace r) = [TimeSyncTask])
   \<and> (\<exists>r pre post. main some_env (command_line three_files [''map'']) (0 :: nat) = Some r
      \<and> trace r = pre @ [Create MapTask, Append MapTask, Exec] @ post
      \<and> appended pre = [] \<and> Exec \<notin> set pre \<and> appended post = []
      \<and> appended (trace r) = [MapTask])"
proof -
  have video: "command_of_word ''video'' = Some CommandVideo"
    and sync: "command_of_word ''sync'' = Some CommandSync"
    and mapc: "command_of_word ''map'' = Some CommandMap"
    by (simp_all add: command_of_word_def)
  show ?thesis
    using main_appends_tasks [OF three_files_parse [OF video], of "0 :: nat"]
      main_appends_tasks [OF three_files_parse [OF sync], of "0 :: nat"]
      main_appends_tasks [OF three_files_parse [OF mapc], of "0 :: nat"]
    by simp
qed

section \<open>The clear command and the tile cache\<close>

lemma fetch_miss:
  "fetch external k (Map.empty, 0) = (external k, Map.empty(k \<mapsto> external k), 1)"
  by (simp add: fetch_def)

lemma fetch_hit:
  "store k = Some t \<Longrightarrow> fetch external k (store, n) = (t, store, n)"
  by (simp add: fetch_def)

lemma fetch_after_purge:
  "snd (snd (fetch external k (purge store, n))) = n + 1"
  by (simp add: fetch_def purge_def)

text \<open>
  Claim C4 asks that the clear command purge the persisted tile cache, so that a key
  fetched before and after it costs two external fetches; the usage text of the program
  promises the same (\<open>clear : Clear cache\<close>). The code does not: when the parse
  succeeds and selects the clear command, \<open>main\<close> logs \<open>Not yet implemented\<close>, appends no
  task, never enters the event loop and exits, and every persisted store is left as it
  was. A key fetched before such a run is still stored after it, and the two fetches
  cost one external fetch in all.
\<close>

theorem clear_command_keeps_tile_cache:
  assumes "parseCommandLine (clib e) (SourceOpenStreetMap e) cl (constructed e) = Some (result, app, out)"
    and "\<not> result < 0"
    and "command app = CommandClear"
  shows "main e cl store =
           Some \<lparr>trace = [EventBaseNew, LogNotice (''gpx2video v'' @ version e), SetLogLevel]
                            @ map Cout out
                            @ [LogNotice ''Not yet implemented'', EventBaseFree, Exit 0],
                 final = Some (0, store)\<rparr>
         \<and> fetch_run_fetch external e cl k = Some 1"
proof -
  have run: "main e cl st =
           Some \<lparr>trace = [EventBaseNew, LogNotice (''gpx2video v'' @ version e), SetLogLevel]
                            @ map Cout out
                            @ [LogNotice ''Not yet implemented'', EventBaseFree, Exit 0],
                 final = Some (0, st)\<rparr>" for st
    using main_parsed [OF assms(1), of st] assms(2,3)
    by (simp add: command_switch_def at_exit_def EXIT_SUCCESS_def)
  have "fetch_run_fetch external e cl k =
          Some (snd (snd (fetch external k (Map.empty(k \<mapsto> external k), 1))))"
    by (simp add: fetch_run_fetch_def fetch_miss run)
  also have "\<dots> = Some 1"
    by (simp add: fetch_hit)
  finally show ?thesis using run [of store] by simp
qed

theorem clear_command_keeps_tile_cache_witness:
  "map_option final (main some_env (command_line three_files [''clear''])
       (Map.empty(some_key \<mapsto> (0 :: nat)))) =
     Some (Some (0, Map.empty(some_key \<mapsto> 0)))
   \<and> fetch_run_fetch (\<lambda>k. 0 :: nat) some_env (command_line three_files [''clear'']) some_key = Some 1"
proof -
  have clear: "command_of_word ''clear'' = Some CommandClear"
    by (simp add: command_of_word_def)
  show ?thesis
    using clear_command_keeps_tile_cache [OF three_files_parse [OF clear],
        of "Map.empty(some_key \<mapsto> (0 :: nat))" "\<lambda>k. 0 :: nat" some_key]
    by simp
qed

end
